theory Spec2Isabelle
  imports Complex_Main
begin

section \<open>Python values the two modules rely on\<close>

text \<open>
  Exceptions are values. \<open>AssertionError\<close> carries the message of the failed
  \<^verbatim>\<open>assert\<close>; \<open>CudaUnavailable\<close> is what torch raises when \<^verbatim>\<open>.cuda()\<close> is
  called on a machine that has no CUDA device; \<open>InvalidReference\<close> stands for a use
  of an object that was never allocated (Python cannot produce one; the branch keeps
  the heap lookups total).
\<close>

datatype py_error =
    AssertionError string
  | CudaUnavailable
  | InvalidReference

text \<open>
  Python's \<^verbatim>\<open>xs[start:stop]\<close> with step 1. A missing bound is \<open>None\<close>; a negative
  bound counts from the end and is clamped at 0; a bound beyond the end is clamped
  at the length. Slicing never raises.
\<close>

definition py_slice :: "int option \<Rightarrow> int option \<Rightarrow> 'a list \<Rightarrow> 'a list" where
  "py_slice start stop xs =
     (let n = int (length xs);
          clamp = (\<lambda>i. if i < 0 then max (i + n) 0 else min i n);
          lo = (case start of None \<Rightarrow> 0 | Some i \<Rightarrow> clamp i);
          hi = (case stop of None \<Rightarrow> n | Some i \<Rightarrow> clamp i)
      in take (nat (hi - lo)) (drop (nat lo) xs))"

section \<open>\<^verbatim>\<open>ml/rl/training/training_data_page.py\<close>\<close>

text \<open>
  \<^verbatim>\<open>TrainingDataPage\<close> declares nine slots and its \<^verbatim>\<open>__init__\<close> assigns each
  argument to the slot of the same name. The arguments are untyped Python objects: they
  are values of one universe \<open>'v\<close>. \<^verbatim>\<open>not_terminals\<close> may be \<^verbatim>\<open>None\<close>, so its slot
  is an option.
\<close>

record 'v TrainingDataPage =
  states :: 'v
  actions :: 'v
  rewards :: 'v
  next_states :: 'v
  next_actions :: 'v
  possible_next_actions :: 'v
  reward_timelines :: 'v
  ds :: 'v
  not_terminals :: "'v option"

text \<open>
  The last parameter is the keyword argument as the call site wrote it: \<open>None\<close> when
  the call omits \<^verbatim>\<open>not_terminals\<close>, \<open>Some v\<close> when it passes \<open>v\<close> (which may itself
  be Python's \<^verbatim>\<open>None\<close>). The default value of the parameter is \<^verbatim>\<open>None\<close>. The body
  has no check and no \<^verbatim>\<open>raise\<close>, so the only result is \<open>Inr\<close>.
\<close>

definition TrainingDataPage_init ::
  "'v \<Rightarrow> 'v \<Rightarrow> 'v \<Rightarrow> 'v \<Rightarrow> 'v \<Rightarrow> 'v \<Rightarrow> 'v \<Rightarrow> 'v \<Rightarrow> 'v option option
     \<Rightarrow> py_error + 'v TrainingDataPage" where
  "TrainingDataPage_init states_arg actions_arg rewards_arg next_states_arg next_actions_arg
       possible_next_actions_arg reward_timelines_arg ds_arg not_terminals_kw =
     (let not_terminals_arg = (case not_terminals_kw of None \<Rightarrow> None | Some v \<Rightarrow> v)
      in Inr \<lparr> states = states_arg,
               actions = actions_arg,
               rewards = rewards_arg,
               next_states = next_states_arg,
               next_actions = next_actions_arg,
               possible_next_actions = possible_next_actions_arg,
               reward_timelines = reward_timelines_arg,
               ds = ds_arg,
               not_terminals = not_terminals_arg \<rparr>)"

section \<open>\<^verbatim>\<open>reagent/workflow_utils/transitional.py\<close>: what the module imports\<close>

subsection \<open>Configuration objects\<close>

text \<open>
  The parameter classes live in \<^verbatim>\<open>reagent.parameters\<close>, which is not part of the
  sources at hand. Each record has the attributes that \<^verbatim>\<open>transitional.py\<close> reads,
  under the names it reads them by. Dimensions and counts are Python ints, ratios and
  weights are floats that the module only passes on or compares with 0 (reals here),
  activation and optimizer names are strings.
\<close>

record RLParameters =
  gamma :: real

record RainbowDQNParameters =
  double_q_learning :: bool
  dueling_architecture :: bool
  quantile :: bool
  categorical :: bool
  num_atoms :: int
  qmin :: real
  qmax :: real

record TrainingParameters =
  layers :: "int list"
  activations :: "string list"
  dropout_ratio :: real
  minibatch_size :: int
  optimizer :: string
  learning_rate :: real
  l2_decay :: real

record EvaluationParameters =
  calc_cpe_in_training :: bool

record MDNRNNParameters =
  hidden_size :: int
  num_hidden_layers :: int
  num_gaussians :: int
  not_terminal_loss_weight :: real

record CEMParameters =
  num_world_models :: int
  mdnrnn :: MDNRNNParameters
  cem_num_iterations :: int
  cem_population_size :: int
  ensemble_population_size :: int
  num_elites :: int
  plan_horizon_length :: int
  rl :: RLParameters
  alpha :: real
  epsilon :: real

text \<open>
  \<^verbatim>\<open>ContinuousActionModelParameters\<close> and \<^verbatim>\<open>DiscreteActionModelParameters\<close> both
  have \<^verbatim>\<open>rl\<close>, \<^verbatim>\<open>training\<close> and \<^verbatim>\<open>rainbow\<close>; the discrete one adds the action
  names and the evaluation block. The second record extends the first so that one
  selector reads the attribute of either, as attribute access does in Python.
\<close>

record ContinuousActionModelParameters =
  rl :: RLParameters
  training :: TrainingParameters
  rainbow :: RainbowDQNParameters

record DiscreteActionModelParameters = ContinuousActionModelParameters +
  actions :: "string list"
  evaluation :: EvaluationParameters

datatype EnvType = DISCRETE_ACTION | CONTINUOUS_ACTION

record Box =
  high :: "real list"
  low :: "real list"

record OpenAIGymEnvironment =
  action_type :: EnvType
  action_space :: Box
  state_dim :: int
  action_dim :: int

subsection \<open>Networks, the heap and the trace of framework calls\<close>

text \<open>
  A network is an object with an identity: two constructor calls with equal arguments
  give two networks. Objects live in a heap, a list indexed by address; a reference is
  an address.
\<close>

type_synonym addr = nat

text \<open>
  One constructor per network class that the module instantiates, with the keyword
  arguments of the call in the order the source writes them:
  \<^item> \<open>QuantileDQN state_dim action_dim num_atoms sizes activations dropout_ratio\<close>
  \<^item> \<open>CategoricalDQN state_dim action_dim num_atoms qmin qmax sizes activations dropout_ratio use_gpu\<close>
  \<^item> \<open>DuelingQNetwork layers activations\<close>
  \<^item> \<open>FullyConnectedDQN state_dim action_dim sizes activations dropout_ratio\<close>
  \<^item> \<open>FullyConnectedParametricDQN state_dim action_dim sizes activations\<close>
  \<^item> \<open>MemoryNetwork state_dim action_dim num_hiddens num_hidden_layers num_gaussians\<close>
  \<^item> \<open>CEMPlannerNetwork mem_net_list cem_num_iterations cem_population_size
       ensemble_population_size num_elites plan_horizon_length state_dim action_dim
       discrete_action terminal_effective gamma alpha epsilon action_upper_bounds
       action_lower_bounds\<close>
  \<^item> \<open>DistributedDataParallel a\<close> is the wrapper that
    \<^verbatim>\<open>get_distributed_data_parallel_model\<close> returns around the network at \<open>a\<close>.
\<close>

datatype module =
    QuantileDQN int int int "int list" "string list" real
  | CategoricalDQN int int int real real "int list" "string list" real bool
  | DuelingQNetwork "int list" "string list"
  | FullyConnectedDQN int int "int list" "string list" real
  | FullyConnectedParametricDQN int int "int list" "string list"
  | MemoryNetwork int int int int int
  | CEMPlannerNetwork "addr list" int int int int int int int bool bool real real real
      "real list option" "real list option"
  | DistributedDataParallel addr

datatype device = CPU | GPU

record obj =
  net :: module
  placed_on :: device

text \<open>
  The trace records every call into the framework that touches a network, in program
  order: a constructor call, a \<^verbatim>\<open>.cuda()\<close> call (recorded when it is made, whether or
  not it succeeds), a \<^verbatim>\<open>get_target_network()\<close> call (new object, source) and a
  \<^verbatim>\<open>get_distributed_data_parallel_model()\<close> call (wrapper, wrapped).
\<close>

datatype event =
    Constructed addr
  | CudaCalled addr
  | TargetDerived addr addr
  | Wrapped addr addr

text \<open>
  The world a call runs in: whether the machine has a CUDA device (what
  \<^verbatim>\<open>torch.cuda.is_available()\<close> reports), the heap and the trace.
\<close>

record world =
  cuda_available :: bool
  heap :: "obj list"
  trace :: "event list"

type_synonym 'a prog = "world \<Rightarrow> (py_error + 'a) \<times> world"

definition py_return :: "'a \<Rightarrow> 'a prog" where
  "py_return x = (\<lambda>w. (Inr x, w))"

text \<open>Sequencing: an exception of the first part skips the second, and the world stays
  as the first part left it.\<close>

definition py_bind :: "'a prog \<Rightarrow> ('a \<Rightarrow> 'b prog) \<Rightarrow> 'b prog" where
  "py_bind m f = (\<lambda>w. case m w of (Inl e, w') \<Rightarrow> (Inl e, w') | (Inr x, w') \<Rightarrow> f x w')"

definition py_assert :: "bool \<Rightarrow> string \<Rightarrow> unit prog" where
  "py_assert c msg = (\<lambda>w. if c then (Inr (), w) else (Inl (AssertionError msg), w))"

definition torch_cuda_is_available :: "bool prog" where
  "torch_cuda_is_available = (\<lambda>w. (Inr (cuda_available w), w))"

text \<open>A constructor call allocates the next address; a new network is on the CPU.\<close>

definition new_module :: "module \<Rightarrow> addr prog" where
  "new_module m =
     (\<lambda>w. let a = length (heap w)
          in (Inr a, w\<lparr> heap := heap w @ [\<lparr> net = m, placed_on = CPU \<rparr>],
                        trace := trace w @ [Constructed a] \<rparr>))"

text \<open>
  torch's \<^verbatim>\<open>Module.cuda()\<close> moves the module in place and returns the module itself;
  without a CUDA device it raises.
\<close>

definition cuda :: "addr \<Rightarrow> addr prog" where
  "cuda a =
     (\<lambda>w. let w' = w\<lparr> trace := trace w @ [CudaCalled a] \<rparr>
          in if \<not> a < length (heap w) then (Inl InvalidReference, w')
             else if cuda_available w
             then (Inr a, w'\<lparr> heap := (heap w)[a := (heap w ! a)\<lparr> placed_on := GPU \<rparr>] \<rparr>)
             else (Inl CudaUnavailable, w'))"

text \<open>
  Modelled from the spec: \<^verbatim>\<open>get_target_network\<close> is a method of the network classes,
  which are not among the sources. The spec calls its result ``a frozen/copy network''
  that reflects ``the same device as the source it is copied from'': a new object
  with the source's contents and device.
\<close>

definition get_target_network :: "addr \<Rightarrow> addr prog" where
  "get_target_network a =
     (\<lambda>w. if \<not> a < length (heap w) then (Inl InvalidReference, w)
          else let t = length (heap w)
               in (Inr t, w\<lparr> heap := heap w @ [heap w ! a],
                             trace := trace w @ [TargetDerived t a] \<rparr>))"

text \<open>
  Modelled from the spec: \<^verbatim>\<open>get_distributed_data_parallel_model\<close> is a method of
  the network classes, which are not among the sources. The spec has it ``wrap'' the
  network ``in a multi-device parallel wrapper, replacing the original references'':
  a new object that refers to the wrapped network, on the same device.
\<close>

definition get_distributed_data_parallel_model :: "addr \<Rightarrow> addr prog" where
  "get_distributed_data_parallel_model a =
     (\<lambda>w. if \<not> a < length (heap w) then (Inl InvalidReference, w)
          else let d = length (heap w)
               in (Inr d, w\<lparr> heap := heap w @ [\<lparr> net = DistributedDataParallel a,
                                                 placed_on = placed_on (heap w ! a) \<rparr>],
                             trace := trace w @ [Wrapped d a] \<rparr>))"

subsection \<open>Trainers\<close>

text \<open>
  The trainer parameter objects are built by class methods of the trainer modules from
  the whole model configuration; what they compute is outside this module, so each is
  the method applied to its argument. \<open>ParametricDQNTrainerParameters\<close> is built
  field by field: \<open>rl\<close>, \<open>double_q_learning\<close>, \<open>minibatch_size\<close>, \<open>optimizer\<close>,
  the last being \<open>OptimizerParameters optimizer learning_rate l2_decay\<close>.
\<close>

datatype OptimizerParameters = OptimizerParameters string real real

datatype TrainerParameters =
    QRDQNTrainerParameters_from_discrete_action_model_parameters DiscreteActionModelParameters
  | C51TrainerParameters_from_discrete_action_model_parameters DiscreteActionModelParameters
  | DQNTrainerParameters_from_discrete_action_model_parameters DiscreteActionModelParameters
  | ParametricDQNTrainerParameters RLParameters bool int OptimizerParameters

text \<open>
  The trainers, with the arguments of each constructor call in the order the source
  gives them:
  \<^item> \<open>QRDQNTrainer q_network q_network_target parameters use_gpu metrics_to_score
       reward_network q_network_cpe q_network_cpe_target\<close>
  \<^item> \<open>C51Trainer q_network q_network_target parameters use_gpu metrics_to_score\<close>
  \<^item> \<open>DQNTrainer q_network q_network_target reward_network parameters use_gpu
       q_network_cpe q_network_cpe_target metrics_to_score\<close>
  \<^item> \<open>ParametricDQNTrainer q_network q_network_target reward_network use_gpu
       trainer_parameters\<close>
  \<^item> \<open>MDNRNNTrainer mdnrnn_network params\<close>
  \<^item> \<open>CEMTrainer cem_planner_network world_model_trainers params use_gpu\<close>
\<close>

datatype Trainer =
    QRDQNTrainer addr addr TrainerParameters bool "string list"
      "addr option" "addr option" "addr option"
  | C51Trainer addr addr TrainerParameters bool "string list"
  | DQNTrainer addr addr "addr option" TrainerParameters bool
      "addr option" "addr option" "string list"
  | ParametricDQNTrainer addr addr addr bool TrainerParameters

datatype MDNRNNTrainer = MDNRNNTrainer addr MDNRNNParameters

datatype CEMTrainer = CEMTrainer addr "MDNRNNTrainer list" CEMParameters bool

text \<open>
  Modelled from the spec: the attribute \<^verbatim>\<open>mdnrnn\<close> of an \<^verbatim>\<open>MDNRNNTrainer\<close> is set by
  the trainer's constructor, which is not among the sources. By the spec each
  world-model trainer is ``owning its own network instance'': the attribute is the
  network the trainer was built with.
\<close>

fun trainer_mdnrnn :: "MDNRNNTrainer \<Rightarrow> addr" where
  "trainer_mdnrnn (MDNRNNTrainer mdnrnn_network params) = mdnrnn_network"

section \<open>\<^verbatim>\<open>reagent/workflow_utils/transitional.py\<close>: the factory functions\<close>

text \<open>
  \<^verbatim>\<open>get_num_output_features\<close> comes from \<^verbatim>\<open>reagent.preprocessing.normalization\<close>,
  which is not among the sources: the functions below take it as their first argument,
  and the normalization parameters are of any type \<open>'np\<close> it accepts.
\<close>

text \<open>\<^verbatim>\<open>metrics_to_score or []\<close>: \<^verbatim>\<open>None\<close> and the empty list are falsy.\<close>

definition or_empty_list :: "'a list option \<Rightarrow> 'a list" where
  "or_empty_list x = (case x of None \<Rightarrow> [] | Some xs \<Rightarrow> (if xs = [] then [] else xs))"

text \<open>\<^verbatim>\<open>n.get_distributed_data_parallel_model() if n else None\<close>.\<close>

definition wrap_if_present :: "addr option \<Rightarrow> addr option prog" where
  "wrap_if_present n =
     (case n of
        Some a \<Rightarrow> py_bind (get_distributed_data_parallel_model a) (\<lambda>d. py_return (Some d))
      | None \<Rightarrow> py_return None)"

definition create_dqn_trainer_from_params ::
  "('np \<Rightarrow> int) \<Rightarrow> DiscreteActionModelParameters \<Rightarrow> 'np \<Rightarrow> bool \<Rightarrow> bool
     \<Rightarrow> string list option \<Rightarrow> Trainer prog" where
  "create_dqn_trainer_from_params get_num_output_features model normalization_parameters
       use_gpu use_all_avail_gpus metrics_to_score_arg =
     (let metrics_to_score = or_empty_list metrics_to_score_arg in
      py_bind
        (if quantile (rainbow model) then
           new_module (QuantileDQN
             (get_num_output_features normalization_parameters)
             (int (length (actions model)))
             (num_atoms (rainbow model))
             (py_slice (Some 1) (Some (- 1)) (layers (training model)))
             (py_slice None (Some (- 1)) (activations (training model)))
             (dropout_ratio (training model)))
         else if categorical (rainbow model) then
           new_module (CategoricalDQN
             (get_num_output_features normalization_parameters)
             (int (length (actions model)))
             (num_atoms (rainbow model))
             (qmin (rainbow model))
             (qmax (rainbow model))
             (py_slice (Some 1) (Some (- 1)) (layers (training model)))
             (py_slice None (Some (- 1)) (activations (training model)))
             (dropout_ratio (training model))
             use_gpu)
         else if dueling_architecture (rainbow model) then
           new_module (DuelingQNetwork
             ([get_num_output_features normalization_parameters]
                @ py_slice (Some 1) (Some (- 1)) (layers (training model))
                @ [int (length (actions model))])
             (activations (training model)))
         else
           new_module (FullyConnectedDQN
             (get_num_output_features normalization_parameters)
             (int (length (actions model)))
             (py_slice (Some 1) (Some (- 1)) (layers (training model)))
             (py_slice None (Some (- 1)) (activations (training model)))
             (dropout_ratio (training model))))
        (\<lambda>q_network.
      py_bind torch_cuda_is_available (\<lambda>available.
      py_bind (if use_gpu \<and> available then cuda q_network else py_return q_network)
        (\<lambda>q_network.
      py_bind (get_target_network q_network) (\<lambda>q_network_target.
      py_bind
        (if calc_cpe_in_training (evaluation model) then
           (let num_output_nodes =
                  (int (length metrics_to_score) + 1) * int (length (actions model)) in
            py_bind (new_module (FullyConnectedDQN
                (get_num_output_features normalization_parameters)
                num_output_nodes
                (py_slice (Some 1) (Some (- 1)) (layers (training model)))
                (py_slice None (Some (- 1)) (activations (training model)))
                (dropout_ratio (training model))))
              (\<lambda>reward_network.
            py_bind (new_module (FullyConnectedDQN
                (get_num_output_features normalization_parameters)
                num_output_nodes
                (py_slice (Some 1) (Some (- 1)) (layers (training model)))
                (py_slice None (Some (- 1)) (activations (training model)))
                (dropout_ratio (training model))))
              (\<lambda>q_network_cpe.
            py_bind torch_cuda_is_available (\<lambda>available.
            py_bind
              (if use_gpu \<and> available then
                 py_bind (cuda reward_network) (\<lambda>_.
                 py_bind (cuda q_network_cpe) (\<lambda>_. py_return ()))
               else py_return ())
              (\<lambda>_.
            py_bind (get_target_network q_network_cpe) (\<lambda>q_network_cpe_target.
            py_return (Some reward_network, Some q_network_cpe, Some q_network_cpe_target)))))))
         else py_return (None, None, None))
        (\<lambda>(reward_network, q_network_cpe, q_network_cpe_target).
      py_bind
        (if use_all_avail_gpus \<and> \<not> categorical (rainbow model) \<and> \<not> quantile (rainbow model)
         then
           py_bind (get_distributed_data_parallel_model q_network) (\<lambda>q_network.
           py_bind (wrap_if_present reward_network) (\<lambda>reward_network.
           py_bind (wrap_if_present q_network_cpe) (\<lambda>q_network_cpe.
           py_return (q_network, reward_network, q_network_cpe))))
         else py_return (q_network, reward_network, q_network_cpe))
        (\<lambda>(q_network, reward_network, q_network_cpe).
      if quantile (rainbow model) then
        py_bind
          (py_assert (\<not> use_all_avail_gpus)
             ''use_all_avail_gpus not implemented for distributional RL'')
          (\<lambda>_.
        let parameters = QRDQNTrainerParameters_from_discrete_action_model_parameters model in
        py_return (QRDQNTrainer q_network q_network_target parameters use_gpu
          metrics_to_score reward_network q_network_cpe q_network_cpe_target))
      else if categorical (rainbow model) then
        py_bind
          (py_assert (\<not> use_all_avail_gpus)
             ''use_all_avail_gpus not implemented for distributional RL'')
          (\<lambda>_.
        py_return (C51Trainer q_network q_network_target
          (C51TrainerParameters_from_discrete_action_model_parameters model) use_gpu
          metrics_to_score))
      else
        (let parameters = DQNTrainerParameters_from_discrete_action_model_parameters model in
         py_return (DQNTrainer q_network q_network_target reward_network parameters use_gpu
           q_network_cpe q_network_cpe_target metrics_to_score)))))))))"

definition create_parametric_dqn_trainer_from_params ::
  "('np \<Rightarrow> int) \<Rightarrow> ContinuousActionModelParameters \<Rightarrow> 'np \<Rightarrow> 'np \<Rightarrow> bool \<Rightarrow> bool
     \<Rightarrow> Trainer prog" where
  "create_parametric_dqn_trainer_from_params get_num_output_features model
       state_normalization_parameters action_normalization_parameters
       use_gpu use_all_avail_gpus =
     py_bind (new_module (FullyConnectedParametricDQN
         (get_num_output_features state_normalization_parameters)
         (get_num_output_features action_normalization_parameters)
         (py_slice (Some 1) (Some (- 1)) (layers (training model)))
         (py_slice None (Some (- 1)) (activations (training model)))))
       (\<lambda>q_network.
     py_bind (new_module (FullyConnectedParametricDQN
         (get_num_output_features state_normalization_parameters)
         (get_num_output_features action_normalization_parameters)
         (py_slice (Some 1) (Some (- 1)) (layers (training model)))
         (py_slice None (Some (- 1)) (activations (training model)))))
       (\<lambda>reward_network.
     py_bind (get_target_network q_network) (\<lambda>q_network_target.
     py_bind
       (if use_gpu then
          py_bind (cuda q_network) (\<lambda>q_network.
          py_bind (cuda q_network_target) (\<lambda>q_network_target.
          py_bind (cuda reward_network) (\<lambda>reward_network.
          py_return (q_network, q_network_target, reward_network))))
        else py_return (q_network, q_network_target, reward_network))
       (\<lambda>(q_network, q_network_target, reward_network).
     py_bind
       (if use_all_avail_gpus then
          py_bind (get_distributed_data_parallel_model q_network) (\<lambda>q_network.
          py_bind (get_distributed_data_parallel_model q_network_target) (\<lambda>q_network_target.
          py_bind (get_distributed_data_parallel_model reward_network) (\<lambda>reward_network.
          py_return (q_network, q_network_target, reward_network))))
        else py_return (q_network, q_network_target, reward_network))
       (\<lambda>(q_network, q_network_target, reward_network).
     let trainer_parameters = ParametricDQNTrainerParameters
           (rl model)
           (double_q_learning (rainbow model))
           (minibatch_size (training model))
           (OptimizerParameters
              (optimizer (training model))
              (learning_rate (training model))
              (l2_decay (training model)))
     in py_return (ParametricDQNTrainer q_network q_network_target reward_network use_gpu
          trainer_parameters))))))"

definition create_world_model_trainer ::
  "OpenAIGymEnvironment \<Rightarrow> MDNRNNParameters \<Rightarrow> bool \<Rightarrow> MDNRNNTrainer prog" where
  "create_world_model_trainer env mdnrnn_params use_gpu =
     py_bind (new_module (MemoryNetwork
         (state_dim env)
         (action_dim env)
         (hidden_size mdnrnn_params)
         (num_hidden_layers mdnrnn_params)
         (num_gaussians mdnrnn_params)))
       (\<lambda>mdnrnn_net.
     py_bind (if use_gpu then cuda mdnrnn_net else py_return mdnrnn_net) (\<lambda>mdnrnn_net.
     py_return (MDNRNNTrainer mdnrnn_net mdnrnn_params)))"

text \<open>
  The list comprehension \<^verbatim>\<open>[body for _ in range(n)]\<close>: the body runs \<open>n\<close> times, in
  order, and an exception in one run ends the comprehension.
\<close>

fun repeat_prog :: "nat \<Rightarrow> 'a prog \<Rightarrow> 'a list prog" where
  "repeat_prog 0 body = py_return []"
| "repeat_prog (Suc n) body =
     py_bind body (\<lambda>x. py_bind (repeat_prog n body) (\<lambda>xs. py_return (x # xs)))"

text \<open>\<^verbatim>\<open>range(n)\<close> is empty for \<open>n \<le> 0\<close>: it has \<open>nat n\<close> elements.\<close>

definition get_cem_trainer ::
  "OpenAIGymEnvironment \<Rightarrow> CEMParameters \<Rightarrow> bool \<Rightarrow> CEMTrainer prog" where
  "get_cem_trainer env params use_gpu =
     (let num_world_models = CEMParameters.num_world_models params in
      py_bind
        (repeat_prog (nat num_world_models)
           (create_world_model_trainer env (mdnrnn params) use_gpu))
        (\<lambda>world_model_trainers.
      let world_model_nets = map trainer_mdnrnn world_model_trainers;
          discrete_action = (action_type env = DISCRETE_ACTION);
          terminal_effective = (not_terminal_loss_weight (mdnrnn params) > 0);
          (action_upper_bounds, action_lower_bounds) =
            (if \<not> discrete_action
             then (Some (high (action_space env)), Some (low (action_space env)))
             else (None, None))
      in
      py_bind (new_module (CEMPlannerNetwork
          world_model_nets
          (cem_num_iterations params)
          (cem_population_size params)
          (ensemble_population_size params)
          (num_elites params)
          (plan_horizon_length params)
          (state_dim env)
          (action_dim env)
          discrete_action
          terminal_effective
          (gamma (CEMParameters.rl params))
          (alpha params)
          (epsilon params)
          action_upper_bounds
          action_lower_bounds))
        (\<lambda>cem_planner_network.
      let cem_trainer = CEMTrainer cem_planner_network world_model_trainers params use_gpu
      in py_return cem_trainer)))"

section \<open>Observing a run\<close>

text \<open>What a call added to the trace of the world it started in.\<close>

definition events_since :: "world \<Rightarrow> world \<Rightarrow> event list" where
  "events_since w w' = drop (length (trace w)) (trace w')"

text \<open>The addresses of the networks that constructor calls created, in order.\<close>

fun constructed :: "event list \<Rightarrow> addr list" where
  "constructed [] = []"
| "constructed (Constructed a # es) = a # constructed es"
| "constructed (CudaCalled a # es) = constructed es"
| "constructed (TargetDerived t a # es) = constructed es"
| "constructed (Wrapped d a # es) = constructed es"

fun wrapped :: "event list \<Rightarrow> addr list" where
  "wrapped [] = []"
| "wrapped (Wrapped d a # es) = a # wrapped es"
| "wrapped (Constructed a # es) = wrapped es"
| "wrapped (CudaCalled a # es) = wrapped es"
| "wrapped (TargetDerived t a # es) = wrapped es"

fun cuda_calls :: "event list \<Rightarrow> addr list" where
  "cuda_calls [] = []"
| "cuda_calls (CudaCalled a # es) = a # cuda_calls es"
| "cuda_calls (Constructed a # es) = cuda_calls es"
| "cuda_calls (TargetDerived t a # es) = cuda_calls es"
| "cuda_calls (Wrapped d a # es) = cuda_calls es"

text \<open>\<open>happens_before a b es\<close>: event \<open>a\<close> occurs in \<open>es\<close> and \<open>b\<close> occurs after its
  first occurrence.\<close>

fun happens_before :: "event \<Rightarrow> event \<Rightarrow> event list \<Rightarrow> bool" where
  "happens_before a b [] = False"
| "happens_before a b (e # es) = (if e = a then b \<in> set es else happens_before a b es)"

text \<open>
  The four Q-network architectures of the discrete-action factory, the class that
  realises each, and the decision procedure as the specification words it: quantile
  first, else categorical, else dueling, else the fully-connected default.
\<close>

datatype architecture = Quantile | Categorical | Dueling | Default

fun architecture_of :: "module \<Rightarrow> architecture option" where
  "architecture_of (QuantileDQN sd ad na sz ac dr) = Some Quantile"
| "architecture_of (CategoricalDQN sd ad na lo hi sz ac dr ug) = Some Categorical"
| "architecture_of (DuelingQNetwork ls ac) = Some Dueling"
| "architecture_of (FullyConnectedDQN sd ad sz ac dr) = Some Default"
| "architecture_of m = None"

definition first_match_architecture :: "RainbowDQNParameters \<Rightarrow> architecture" where
  "first_match_architecture r =
     (if quantile r then Quantile
      else if categorical r then Categorical
      else if dueling_architecture r then Dueling
      else Default)"

text \<open>
  What a trainer was given. A \<open>C51Trainer\<close> has no argument for a reward network or
  for CPE networks, so it holds none.
\<close>

fun q_network_of :: "Trainer \<Rightarrow> addr" where
  "q_network_of (QRDQNTrainer q qt ps ug ms rn cpe cpet) = q"
| "q_network_of (C51Trainer q qt ps ug ms) = q"
| "q_network_of (DQNTrainer q qt rn ps ug cpe cpet ms) = q"
| "q_network_of (ParametricDQNTrainer q qt rn ug ps) = q"

fun reward_network_of :: "Trainer \<Rightarrow> addr option" where
  "reward_network_of (QRDQNTrainer q qt ps ug ms rn cpe cpet) = rn"
| "reward_network_of (C51Trainer q qt ps ug ms) = None"
| "reward_network_of (DQNTrainer q qt rn ps ug cpe cpet ms) = rn"
| "reward_network_of (ParametricDQNTrainer q qt rn ug ps) = Some rn"

fun q_network_cpe_of :: "Trainer \<Rightarrow> addr option" where
  "q_network_cpe_of (QRDQNTrainer q qt ps ug ms rn cpe cpet) = cpe"
| "q_network_cpe_of (C51Trainer q qt ps ug ms) = None"
| "q_network_cpe_of (DQNTrainer q qt rn ps ug cpe cpet ms) = cpe"
| "q_network_cpe_of (ParametricDQNTrainer q qt rn ug ps) = None"

fun q_network_cpe_target_of :: "Trainer \<Rightarrow> addr option" where
  "q_network_cpe_target_of (QRDQNTrainer q qt ps ug ms rn cpe cpet) = cpet"
| "q_network_cpe_target_of (C51Trainer q qt ps ug ms) = None"
| "q_network_cpe_target_of (DQNTrainer q qt rn ps ug cpe cpet ms) = cpet"
| "q_network_cpe_target_of (ParametricDQNTrainer q qt rn ug ps) = None"

fun metrics_to_score_of :: "Trainer \<Rightarrow> string list" where
  "metrics_to_score_of (QRDQNTrainer q qt ps ug ms rn cpe cpet) = ms"
| "metrics_to_score_of (C51Trainer q qt ps ug ms) = ms"
| "metrics_to_score_of (DQNTrainer q qt rn ps ug cpe cpet ms) = ms"
| "metrics_to_score_of (ParametricDQNTrainer q qt rn ug ps) = []"

datatype trainer_class = QRDQN | C51 | DQN | ParametricDQN

fun class_of :: "Trainer \<Rightarrow> trainer_class" where
  "class_of (QRDQNTrainer q qt ps ug ms rn cpe cpet) = QRDQN"
| "class_of (C51Trainer q qt ps ug ms) = C51"
| "class_of (DQNTrainer q qt rn ps ug cpe cpet ms) = DQN"
| "class_of (ParametricDQNTrainer q qt rn ug ps) = ParametricDQN"

fun mem_net_list_of :: "module \<Rightarrow> addr list option" where
  "mem_net_list_of (CEMPlannerNetwork nets ni ps eps ne hl sd ad da te g al ep ub lb) = Some nets"
| "mem_net_list_of m = None"

fun is_memory_network :: "module \<Rightarrow> bool" where
  "is_memory_network (MemoryNetwork sd ad nh nl ng) = True"
| "is_memory_network m = False"

fun q_network_target_of :: "Trainer \<Rightarrow> addr" where
  "q_network_target_of (QRDQNTrainer q qt ps ug ms rn cpe cpet) = qt"
| "q_network_target_of (C51Trainer q qt ps ug ms) = qt"
| "q_network_target_of (DQNTrainer q qt rn ps ug cpe cpet ms) = qt"
| "q_network_target_of (ParametricDQNTrainer q qt rn ug ps) = qt"

text \<open>The network behind a reference: the wrapped network if the reference is to a
  multi-device wrapper, the referenced network itself otherwise.\<close>

definition unwrap :: "world \<Rightarrow> addr \<Rightarrow> addr" where
  "unwrap w a = (case net (heap w ! a) of DistributedDataParallel b \<Rightarrow> b | _ \<Rightarrow> a)"

section \<open>Example inputs\<close>

text \<open>
  A small configuration in the shape the factories are called with: four state
  features, two actions, two hidden layers. The normalization parameters are given as
  the list of feature ids, and every feature yields one output feature.
\<close>

definition example_training :: TrainingParameters where
  "example_training =
     \<lparr> layers = [- 1, 128, 64, - 1],
       activations = [''relu'', ''relu'', ''linear''],
       dropout_ratio = 0,
       minibatch_size = 32,
       optimizer = ''ADAM'',
       learning_rate = 1 / 100,
       l2_decay = 0 \<rparr>"

definition example_rainbow :: "bool \<Rightarrow> bool \<Rightarrow> bool \<Rightarrow> RainbowDQNParameters" where
  "example_rainbow q c d =
     \<lparr> double_q_learning = True, dueling_architecture = d, quantile = q, categorical = c,
       num_atoms = 51, qmin = - 100, qmax = 200 \<rparr>"

definition example_discrete_model ::
  "bool \<Rightarrow> bool \<Rightarrow> bool \<Rightarrow> bool \<Rightarrow> DiscreteActionModelParameters" where
  "example_discrete_model q c d cpe =
     \<lparr> rl = \<lparr> gamma = 9 / 10 \<rparr>, training = example_training, rainbow = example_rainbow q c d,
       actions = [''left'', ''right''], evaluation = \<lparr> calc_cpe_in_training = cpe \<rparr> \<rparr>"

definition example_continuous_model :: ContinuousActionModelParameters where
  "example_continuous_model =
     \<lparr> rl = \<lparr> gamma = 9 / 10 \<rparr>, training = example_training,
       rainbow = example_rainbow False False False \<rparr>"

definition one_output_per_feature :: "nat list \<Rightarrow> int" where
  "one_output_per_feature features = int (length features)"

definition example_env :: OpenAIGymEnvironment where
  "example_env =
     \<lparr> action_type = CONTINUOUS_ACTION, action_space = \<lparr> high = [2], low = [- 2] \<rparr>,
       state_dim = 3, action_dim = 1 \<rparr>"

definition example_mdnrnn :: MDNRNNParameters where
  "example_mdnrnn =
     \<lparr> hidden_size = 50, num_hidden_layers = 2, num_gaussians = 5,
       not_terminal_loss_weight = 1 \<rparr>"

definition example_cem :: "int \<Rightarrow> CEMParameters" where
  "example_cem n =
     \<lparr> num_world_models = n, mdnrnn = example_mdnrnn, cem_num_iterations = 2,
       cem_population_size = 50, ensemble_population_size = 1, num_elites = 15,
       plan_horizon_length = 10, rl = \<lparr> gamma = 1 \<rparr>, alpha = 1 / 4, epsilon = 1 / 1000 \<rparr>"

text \<open>A fresh world without a CUDA device, and one with.\<close>

definition cpu_only_world :: world where
  "cpu_only_world = \<lparr> cuda_available = False, heap = [], trace = [] \<rparr>"

definition gpu_world :: world where
  "gpu_world = \<lparr> cuda_available = True, heap = [], trace = [] \<rparr>"

section \<open>Slices\<close>

lemma nat_int_pred: "nat (int n - 1) = n - Suc 0"
  by arith

lemma py_slice_drop_last: "py_slice None (Some (- 1)) xs = butlast xs"
  by (cases "xs = []")
    (auto simp: py_slice_def Let_def butlast_conv_take max_def nat_int_pred)

lemma py_slice_middle: "py_slice (Some 1) (Some (- 1)) xs = butlast (tl xs)"
proof (cases xs)
  case Nil
  then show ?thesis by (simp add: py_slice_def)
next
  case (Cons x ys)
  then show ?thesis
    by (cases "ys = []")
      (auto simp: py_slice_def Let_def butlast_conv_take max_def min_def nat_int_pred)
qed

section \<open>What each factory function does, step by step\<close>

text \<open>
  Each factory is straight-line code over the framework calls. The lemmas of this
  section execute it once, symbolically, from any starting world: they give the result,
  the objects added to the heap and the events added to the trace.
\<close>

lemmas prog_defs = py_bind_def py_return_def py_assert_def torch_cuda_is_available_def
  new_module_def cuda_def get_target_network_def get_distributed_data_parallel_model_def
  wrap_if_present_def

lemma create_dqn_trainer_from_params_run:
  "create_dqn_trainer_from_params g model np use_gpu use_all ms w =
     (let n = length (heap w);
          r = rainbow model;
          t = training model;
          sd = g np;
          A = int (length (actions model));
          sizes = butlast (tl (layers t));
          acts = butlast (activations t);
          dr = dropout_ratio t;
          metrics = or_empty_list ms;
          d = (if use_gpu \<and> cuda_available w then GPU else CPU);
          cpe = calc_cpe_in_training (evaluation model);
          ddp = (use_all \<and> \<not> categorical r \<and> \<not> quantile r);
          q = \<lparr> net = (if quantile r then QuantileDQN sd A (num_atoms r) sizes acts dr
                       else if categorical r
                       then CategoricalDQN sd A (num_atoms r) (qmin r) (qmax r) sizes acts dr use_gpu
                       else if dueling_architecture r
                       then DuelingQNetwork ([sd] @ sizes @ [A]) (activations t)
                       else FullyConnectedDQN sd A sizes acts dr),
                placed_on = d \<rparr>;
          aux = \<lparr> net = FullyConnectedDQN sd ((int (length metrics) + 1) * A) sizes acts dr,
                  placed_on = d \<rparr>;
          k = (if cpe then 5 else 2);
          objs = [q, q] @ (if cpe then [aux, aux, aux] else [])
                 @ (if ddp
                    then [\<lparr> net = DistributedDataParallel n, placed_on = d \<rparr>]
                         @ (if cpe
                            then [\<lparr> net = DistributedDataParallel (n + 2), placed_on = d \<rparr>,
                                  \<lparr> net = DistributedDataParallel (n + 3), placed_on = d \<rparr>]
                            else [])
                    else []);
          evs = [Constructed n] @ (if d = GPU then [CudaCalled n] else [])
                @ [TargetDerived (n + 1) n]
                @ (if cpe
                   then [Constructed (n + 2), Constructed (n + 3)]
                        @ (if d = GPU then [CudaCalled (n + 2), CudaCalled (n + 3)] else [])
                        @ [TargetDerived (n + 4) (n + 3)]
                   else [])
                @ (if ddp
                   then [Wrapped (n + k) n]
                        @ (if cpe then [Wrapped (n + 6) (n + 2), Wrapped (n + 7) (n + 3)] else [])
                   else []);
          q_ref = (if ddp then n + k else n);
          reward_ref = (if cpe then Some (if ddp then n + 6 else n + 2) else None);
          cpe_ref = (if cpe then Some (if ddp then n + 7 else n + 3) else None);
          cpe_target_ref = (if cpe then Some (n + 4) else None);
          res = (if quantile r
                 then (if use_all
                       then Inl (AssertionError
                              ''use_all_avail_gpus not implemented for distributional RL'')
                       else Inr (QRDQNTrainer n (n + 1)
                              (QRDQNTrainerParameters_from_discrete_action_model_parameters model)
                              use_gpu metrics reward_ref cpe_ref cpe_target_ref))
                 else if categorical r
                 then (if use_all
                       then Inl (AssertionError
                              ''use_all_avail_gpus not implemented for distributional RL'')
                       else Inr (C51Trainer n (n + 1)
                              (C51TrainerParameters_from_discrete_action_model_parameters model)
                              use_gpu metrics))
                 else Inr (DQNTrainer q_ref (n + 1) reward_ref
                        (DQNTrainerParameters_from_discrete_action_model_parameters model)
                        use_gpu cpe_ref cpe_target_ref metrics))
      in (res, w\<lparr> heap := heap w @ objs, trace := trace w @ evs \<rparr>))"
  by (simp add: create_dqn_trainer_from_params_def prog_defs Let_def nth_append list_update_append
        py_slice_middle py_slice_drop_last)

lemma create_parametric_dqn_trainer_from_params_run:
  "create_parametric_dqn_trainer_from_params g model snp anp use_gpu use_all w =
     (let n = length (heap w);
          t = training model;
          m = FullyConnectedParametricDQN (g snp) (g anp)
                (butlast (tl (layers t))) (butlast (activations t));
          cpu = \<lparr> net = m, placed_on = CPU \<rparr>;
          built = [Constructed n, Constructed (n + 1), TargetDerived (n + 2) n]
      in if use_gpu \<and> \<not> cuda_available w
         then (Inl CudaUnavailable,
               w\<lparr> heap := heap w @ [cpu, cpu, cpu],
                  trace := trace w @ built @ [CudaCalled n] \<rparr>)
         else
           (let d = (if use_gpu then GPU else CPU);
                placed = \<lparr> net = m, placed_on = d \<rparr>;
                objs = [placed, placed, placed]
                  @ (if use_all
                     then [\<lparr> net = DistributedDataParallel n, placed_on = d \<rparr>,
                           \<lparr> net = DistributedDataParallel (n + 2), placed_on = d \<rparr>,
                           \<lparr> net = DistributedDataParallel (n + 1), placed_on = d \<rparr>]
                     else []);
                evs = built
                  @ (if use_gpu
                     then [CudaCalled n, CudaCalled (n + 2), CudaCalled (n + 1)] else [])
                  @ (if use_all
                     then [Wrapped (n + 3) n, Wrapped (n + 4) (n + 2), Wrapped (n + 5) (n + 1)]
                     else []);
                q_ref = (if use_all then n + 3 else n);
                target_ref = (if use_all then n + 4 else n + 2);
                reward_ref = (if use_all then n + 5 else n + 1)
            in (Inr (ParametricDQNTrainer q_ref target_ref reward_ref use_gpu
                      (ParametricDQNTrainerParameters (rl model)
                         (double_q_learning (rainbow model))
                         (minibatch_size t)
                         (OptimizerParameters (optimizer t) (learning_rate t) (l2_decay t)))),
                w\<lparr> heap := heap w @ objs, trace := trace w @ evs \<rparr>)))"
  by (simp add: create_parametric_dqn_trainer_from_params_def prog_defs Let_def nth_append
        list_update_append py_slice_middle py_slice_drop_last)

lemma create_world_model_trainer_run:
  "create_world_model_trainer env p use_gpu w =
     (let n = length (heap w);
          m = MemoryNetwork (state_dim env) (action_dim env) (hidden_size p)
                (num_hidden_layers p) (num_gaussians p)
      in if use_gpu \<and> \<not> cuda_available w
         then (Inl CudaUnavailable,
               w\<lparr> heap := heap w @ [\<lparr> net = m, placed_on = CPU \<rparr>],
                  trace := trace w @ [Constructed n, CudaCalled n] \<rparr>)
         else (Inr (MDNRNNTrainer n p),
               w\<lparr> heap := heap w
                    @ [\<lparr> net = m, placed_on = (if use_gpu then GPU else CPU) \<rparr>],
                  trace := trace w @ Constructed n # (if use_gpu then [CudaCalled n] else []) \<rparr>))"
  by (simp add: create_world_model_trainer_def prog_defs Let_def)

lemma repeat_create_world_model_trainer_run:
  assumes "use_gpu \<longrightarrow> cuda_available w"
  shows "repeat_prog k (create_world_model_trainer env p use_gpu) w =
     (Inr (map (\<lambda>a. MDNRNNTrainer a p) [length (heap w) ..< length (heap w) + k]),
      w\<lparr> heap := heap w @ replicate k
              \<lparr> net = MemoryNetwork (state_dim env) (action_dim env) (hidden_size p)
                        (num_hidden_layers p) (num_gaussians p),
                placed_on = (if use_gpu then GPU else CPU) \<rparr>,
         trace := trace w @ concat (map
              (\<lambda>a. Constructed a # (if use_gpu then [CudaCalled a] else []))
              [length (heap w) ..< length (heap w) + k]) \<rparr>)"
  using assms
proof (induction k arbitrary: w)
  case 0
  then show ?case by (simp add: py_return_def)
next
  case (Suc k)
  let ?m = "\<lparr> net = MemoryNetwork (state_dim env) (action_dim env) (hidden_size p)
                        (num_hidden_layers p) (num_gaussians p),
                placed_on = (if use_gpu then GPU else CPU) \<rparr>"
  let ?w1 = "w\<lparr> heap := heap w @ [?m],
      trace := trace w @ Constructed (length (heap w)) # (if use_gpu then [CudaCalled (length (heap w))] else []) \<rparr>"
  have first: "create_world_model_trainer env p use_gpu w = (Inr (MDNRNNTrainer (length (heap w)) p), ?w1)"
    using Suc.prems by (simp add: create_world_model_trainer_run Let_def)
  have avail: "use_gpu \<longrightarrow> cuda_available ?w1"
    using Suc.prems by simp
  have rest: "repeat_prog k (create_world_model_trainer env p use_gpu) ?w1 =
     (Inr (map (\<lambda>a. MDNRNNTrainer a p) [length (heap ?w1) ..< length (heap ?w1) + k]),
      ?w1\<lparr> heap := heap ?w1 @ replicate k ?m,
         trace := trace ?w1 @ concat (map
              (\<lambda>a. Constructed a # (if use_gpu then [CudaCalled a] else []))
              [length (heap ?w1) ..< length (heap ?w1) + k]) \<rparr>)"
    by (rule Suc.IH [OF avail])
  have range: "[length (heap w) ..< length (heap w) + Suc k]
      = length (heap w) # [Suc (length (heap w)) ..< Suc (length (heap w)) + k]"
    by (simp add: upt_rec)
  show ?case
    unfolding repeat_prog.simps range
    by (simp add: py_bind_def py_return_def first rest replicate_app_Cons_same)
qed


lemma events_since_extend [simp]:
  "events_since w (w\<lparr> heap := h, trace := trace w @ evs \<rparr>) = evs"
  by (simp add: events_since_def)

lemma constructed_append [simp]: "constructed (xs @ ys) = constructed xs @ constructed ys"
  by (induction xs rule: constructed.induct) simp_all

lemma wrapped_append [simp]: "wrapped (xs @ ys) = wrapped xs @ wrapped ys"
  by (induction xs rule: wrapped.induct) simp_all

lemma cuda_calls_append [simp]: "cuda_calls (xs @ ys) = cuda_calls xs @ cuda_calls ys"
  by (induction xs rule: cuda_calls.induct) simp_all

lemma length_or_empty_list [simp]: "length (or_empty_list (Some xs)) = length xs"
  by (simp add: or_empty_list_def)

lemma or_empty_list_None [simp]: "or_empty_list None = []"
  by (simp add: or_empty_list_def)

lemmas example_defs = example_training_def example_rainbow_def example_discrete_model_def
  example_continuous_model_def one_output_per_feature_def example_env_def example_mdnrnn_def
  example_cem_def cpu_only_world_def gpu_world_def

section \<open>Properties of the discrete-action factory\<close>

text \<open>
  C4. For every discrete-action configuration and every other argument,
  \<^verbatim>\<open>create_dqn_trainer_from_params\<close> builds one Q-network, at the first address it
  allocates, and its architecture is the first match of quantile, categorical, dueling,
  default, whichever flags are set together. The only other constructor calls are the
  two for the auxiliary networks when \<^verbatim>\<open>calc_cpe_in_training\<close> is set. The trainer
  that is returned is bound to that Q-network (directly or through its multi-device
  wrapper); no trainer is returned only when multi-device wrapping was requested for
  a quantile or categorical architecture.
\<close>

theorem dqn_builds_one_first_match_architecture:
  "let run = create_dqn_trainer_from_params g model np use_gpu use_all ms w;
       w' = snd run;
       n = length (heap w)
   in constructed (events_since w w')
        = n # (if calc_cpe_in_training (evaluation model) then [n + 2, n + 3] else [])
    \<and> architecture_of (net (heap w' ! n)) = Some (first_match_architecture (rainbow model))
    \<and> (case fst run of
          Inr t \<Rightarrow> unwrap w' (q_network_of t) = n
        | Inl e \<Rightarrow> use_all \<and> first_match_architecture (rainbow model) \<in> {Quantile, Categorical})"
  unfolding create_dqn_trainer_from_params_run
  by (simp add: Let_def first_match_architecture_def unwrap_def nth_append)

text \<open>
  C5. With \<^verbatim>\<open>calc_cpe_in_training\<close> set, \<open>M\<close> metrics to score and \<open>A\<close> actions, the
  two auxiliary networks (the reward network, built first, and the CPE network) are
  \<open>FullyConnectedDQN\<close>s of output width \<open>(M + 1) * A\<close>. Their state width, middle
  layers \<^verbatim>\<open>layers[1:-1]\<close>, truncated activations \<^verbatim>\<open>activations[:-1]\<close> and dropout
  ratio are those of the Q-network that the default branch builds for the same
  configuration.
\<close>

theorem cpe_auxiliary_networks_width:
  assumes "calc_cpe_in_training (evaluation model)"
  shows "let w' = snd (create_dqn_trainer_from_params g model np use_gpu use_all (Some metrics) w);
             n = length (heap w);
             M = int (length metrics);
             A = int (length (actions model));
             sizes = py_slice (Some 1) (Some (- 1)) (layers (training model));
             acts = py_slice None (Some (- 1)) (activations (training model));
             ratio = dropout_ratio (training model);
             default_model = model\<lparr> rainbow := (rainbow model)\<lparr> quantile := False,
                 categorical := False, dueling_architecture := False \<rparr> \<rparr>;
             w_default = snd (create_dqn_trainer_from_params g default_model np use_gpu use_all
                 (Some metrics) w)
         in constructed (events_since w w') = [n, n + 2, n + 3]
          \<and> net (heap w' ! (n + 2)) = FullyConnectedDQN (g np) ((M + 1) * A) sizes acts ratio
          \<and> net (heap w' ! (n + 3)) = FullyConnectedDQN (g np) ((M + 1) * A) sizes acts ratio
          \<and> net (heap w_default ! n) = FullyConnectedDQN (g np) A sizes acts ratio"
  using assms unfolding create_dqn_trainer_from_params_run
  by (simp add: Let_def nth_append py_slice_middle py_slice_drop_last)

theorem cpe_auxiliary_networks_width_witness:
  "calc_cpe_in_training (evaluation (example_discrete_model False False True True))
   \<and> (let w' = snd (create_dqn_trainer_from_params one_output_per_feature
                  (example_discrete_model False False True True) [0, 1, 2, 3] False False
                  (Some [''clicks'', ''purchases'']) cpu_only_world)
      in constructed (events_since cpu_only_world w') = [0, 2, 3]
       \<and> net (heap w' ! 2) = FullyConnectedDQN 4 6 [128, 64] [''relu'', ''relu''] 0
       \<and> net (heap w' ! 3) = FullyConnectedDQN 4 6 [128, 64] [''relu'', ''relu''] 0)"
proof -
  have cpe: "calc_cpe_in_training (evaluation (example_discrete_model False False True True))"
    by (simp add: example_defs)
  show ?thesis
    using cpe
      cpe_auxiliary_networks_width [OF cpe, of one_output_per_feature "[0, 1, 2, 3]" False False
        "[''clicks'', ''purchases'']" cpu_only_world]
    by (simp add: Let_def example_defs py_slice_middle py_slice_drop_last numeral_2_eq_2 numeral_3_eq_3)
qed


text \<open>
  C6. In the dueling branch (dueling flag set, quantile and categorical flags clear) the
  network is a \<open>DuelingQNetwork\<close> whose layer sizes are the normalization-derived input
  width, then the configured layers without the first and the last, then the number of
  actions; its activations are the configured ones, all of them. With the quantile flag
  set instead, and with the dueling flag cleared instead, the same configuration gives a
  \<open>QuantileDQN\<close> and a \<open>FullyConnectedDQN\<close> whose activations lack the last
  configured one.
\<close>

theorem dueling_branch_layers_and_activations:
  assumes "\<not> quantile (rainbow model)"
    and "\<not> categorical (rainbow model)"
    and "dueling_architecture (rainbow model)"
  shows "let n = length (heap w);
             built = (\<lambda>m. net (heap (snd (create_dqn_trainer_from_params g m np use_gpu use_all
                        ms w)) ! n));
             input_width = g np;
             A = int (length (actions model));
             middle = butlast (tl (layers (training model)));
             quantile_model = model\<lparr> rainbow := (rainbow model)\<lparr> quantile := True \<rparr> \<rparr>;
             default_model = model\<lparr> rainbow := (rainbow model)\<lparr> dueling_architecture := False \<rparr> \<rparr>
         in built model
              = DuelingQNetwork ([input_width] @ middle @ [A]) (activations (training model))
          \<and> built quantile_model
              = QuantileDQN input_width A (num_atoms (rainbow model)) middle
                  (butlast (activations (training model))) (dropout_ratio (training model))
          \<and> built default_model
              = FullyConnectedDQN input_width A middle
                  (butlast (activations (training model))) (dropout_ratio (training model))"
  using assms unfolding create_dqn_trainer_from_params_run
  by (simp add: Let_def nth_append)

theorem dueling_branch_layers_and_activations_witness:
  "\<not> quantile (rainbow (example_discrete_model False False True False))
   \<and> \<not> categorical (rainbow (example_discrete_model False False True False))
   \<and> dueling_architecture (rainbow (example_discrete_model False False True False))
   \<and> net (heap (snd (create_dqn_trainer_from_params one_output_per_feature
          (example_discrete_model False False True False) [0, 1, 2, 3] False False None
          cpu_only_world)) ! 0)
       = DuelingQNetwork [4, 128, 64, 2] [''relu'', ''relu'', ''linear'']"
proof -
  have q: "\<not> quantile (rainbow (example_discrete_model False False True False))"
    and c: "\<not> categorical (rainbow (example_discrete_model False False True False))"
    and d: "dueling_architecture (rainbow (example_discrete_model False False True False))"
    by (simp_all add: example_defs)
  show ?thesis
    using q c d
      dueling_branch_layers_and_activations [OF q c d, of cpu_only_world one_output_per_feature
        "[0, 1, 2, 3]" False False None]
    by (simp add: Let_def example_defs)
qed

text \<open>
  C10. When \<^verbatim>\<open>metrics_to_score\<close> is left at its default \<^verbatim>\<open>None\<close>, the function
  works with the empty list: with \<^verbatim>\<open>calc_cpe_in_training\<close> set both auxiliary networks
  have output width equal to the number of actions, and whenever a trainer is returned
  (that is, unless multi-device wrapping was requested for a quantile or categorical
  architecture) the trainer's metrics are the empty list.
\<close>

theorem metrics_to_score_default_is_empty_list:
  "let run = create_dqn_trainer_from_params g model np use_gpu use_all None w;
       w' = snd run;
       n = length (heap w);
       A = int (length (actions model));
       aux = FullyConnectedDQN (g np) A
               (py_slice (Some 1) (Some (- 1)) (layers (training model)))
               (py_slice None (Some (- 1)) (activations (training model)))
               (dropout_ratio (training model))
   in (calc_cpe_in_training (evaluation model)
         \<longrightarrow> net (heap w' ! (n + 2)) = aux \<and> net (heap w' ! (n + 3)) = aux)
    \<and> (\<not> (use_all \<and> (quantile (rainbow model) \<or> categorical (rainbow model)))
         \<longrightarrow> (\<exists>t. fst run = Inr t \<and> metrics_to_score_of t = []))"
  unfolding create_dqn_trainer_from_params_run
  by (simp add: Let_def nth_append py_slice_middle py_slice_drop_last)

theorem metrics_to_score_default_is_empty_list_witness:
  "calc_cpe_in_training (evaluation (example_discrete_model False False False True))
   \<and> \<not> (False \<and> (quantile (rainbow (example_discrete_model False False False True))
                 \<or> categorical (rainbow (example_discrete_model False False False True))))
   \<and> (let run = create_dqn_trainer_from_params one_output_per_feature
                  (example_discrete_model False False False True) [0, 1, 2, 3] False False None
                  cpu_only_world
      in net (heap (snd run) ! 2) = FullyConnectedDQN 4 2 [128, 64] [''relu'', ''relu''] 0
       \<and> net (heap (snd run) ! 3) = FullyConnectedDQN 4 2 [128, 64] [''relu'', ''relu''] 0
       \<and> (\<exists>t. fst run = Inr t \<and> metrics_to_score_of t = []))"
  using metrics_to_score_default_is_empty_list [of one_output_per_feature
      "example_discrete_model False False False True" "[0, 1, 2, 3]" False False cpu_only_world]
  by (simp add: Let_def example_defs py_slice_middle py_slice_drop_last
      numeral_2_eq_2 numeral_3_eq_3)

text \<open>
  C8. Whether the reward and CPE networks are built depends on \<^verbatim>\<open>calc_cpe_in_training\<close>
  alone: for every combination of the architecture flags and the device flags the
  constructor calls are the Q-network's and, exactly when the flag is set, those of two
  fully-connected auxiliary networks (without the flag the heap gains only the
  Q-network, its target and, when it is wrapped, its wrapper). The trainer is a
  \<open>QRDQNTrainer\<close>, a \<open>C51Trainer\<close> or a \<open>DQNTrainer\<close> by the quantile and categorical
  flags. The quantile and the default trainer receive the auxiliary networks (as built,
  or wrapped for multi-device) and the CPE target; the \<open>C51Trainer\<close> receives none of
  them, even though they were built.
\<close>

theorem cpe_networks_gated_by_flag_and_withheld_from_c51:
  "let run = create_dqn_trainer_from_params g model np use_gpu use_all ms w;
       w' = snd run;
       n = length (heap w);
       cpe = calc_cpe_in_training (evaluation model);
       r = rainbow model
   in constructed (events_since w w') = n # (if cpe then [n + 2, n + 3] else [])
    \<and> (if cpe
        then architecture_of (net (heap w' ! (n + 2))) = Some Default
           \<and> architecture_of (net (heap w' ! (n + 3))) = Some Default
        else length (heap w') = n + (if use_all \<and> \<not> categorical r \<and> \<not> quantile r then 3 else 2))
    \<and> (case fst run of
          Inl e \<Rightarrow> use_all \<and> first_match_architecture r \<in> {Quantile, Categorical}
        | Inr t \<Rightarrow>
            class_of t = (if quantile r then QRDQN else if categorical r then C51 else DQN)
          \<and> (map_option (unwrap w') (reward_network_of t),
              map_option (unwrap w') (q_network_cpe_of t),
              q_network_cpe_target_of t)
             = (if cpe \<and> class_of t \<noteq> C51
                then (Some (n + 2), Some (n + 3), Some (n + 4))
                else (None, None, None)))"
  unfolding create_dqn_trainer_from_params_run
  by (simp add: Let_def first_match_architecture_def unwrap_def nth_append)

theorem cpe_networks_gated_by_flag_and_withheld_from_c51_witness:
  "(let run = create_dqn_trainer_from_params one_output_per_feature
               (example_discrete_model False True False True) [0, 1, 2, 3] False False None
               cpu_only_world
    in constructed (events_since cpu_only_world (snd run)) = [0, 2, 3]
     \<and> (\<exists>t. fst run = Inr t \<and> class_of t = C51 \<and> reward_network_of t = None
            \<and> q_network_cpe_of t = None \<and> q_network_cpe_target_of t = None))
   \<and> (let run = create_dqn_trainer_from_params one_output_per_feature
               (example_discrete_model True False False True) [0, 1, 2, 3] False False None
               cpu_only_world
    in constructed (events_since cpu_only_world (snd run)) = [0, 2, 3]
     \<and> (\<exists>t. fst run = Inr t \<and> class_of t = QRDQN \<and> reward_network_of t = Some 2
            \<and> q_network_cpe_of t = Some 3 \<and> q_network_cpe_target_of t = Some 4))"
  using
    cpe_networks_gated_by_flag_and_withheld_from_c51 [of one_output_per_feature
      "example_discrete_model False True False True" "[0, 1, 2, 3]" False False None
      cpu_only_world]
    cpe_networks_gated_by_flag_and_withheld_from_c51 [of one_output_per_feature
      "example_discrete_model True False False True" "[0, 1, 2, 3]" False False None
      cpu_only_world]
  by (simp add: Let_def example_defs create_dqn_trainer_from_params_run unwrap_def
      py_slice_middle py_slice_drop_last)

text \<open>
  C1, as amended. When \<^verbatim>\<open>use_all_avail_gpus\<close> is set together with the quantile or the
  categorical flag, \<^verbatim>\<open>create_dqn_trainer_from_params\<close> raises the assertion error
  ``use_all_avail_gpus not implemented for distributional RL'' and returns no trainer;
  it does not fall back to single-device construction silently. The assertion sits in
  the trainer selection at the end of the function: when it fails, the Q-network of the
  selected architecture, its target and, under \<^verbatim>\<open>calc_cpe_in_training\<close>, the auxiliary
  networks have been constructed already, and none of them has been wrapped for
  multi-device execution.
\<close>

theorem multi_gpu_distributional_raises_after_construction:
  assumes "use_all"
    and "quantile (rainbow model) \<or> categorical (rainbow model)"
  shows "let run = create_dqn_trainer_from_params g model np use_gpu use_all ms w;
             w' = snd run;
             n = length (heap w)
         in fst run
              = Inl (AssertionError ''use_all_avail_gpus not implemented for distributional RL'')
          \<and> wrapped (events_since w w') = []
          \<and> constructed (events_since w w')
              = n # (if calc_cpe_in_training (evaluation model) then [n + 2, n + 3] else [])
          \<and> architecture_of (net (heap w' ! n)) = Some (first_match_architecture (rainbow model))"
  using assms unfolding create_dqn_trainer_from_params_run
  by (auto simp add: Let_def first_match_architecture_def nth_append)

theorem multi_gpu_distributional_raises_after_construction_witness:
  "True
   \<and> (quantile (rainbow (example_discrete_model False True False False))
       \<or> categorical (rainbow (example_discrete_model False True False False)))
   \<and> (let run = create_dqn_trainer_from_params one_output_per_feature
                  (example_discrete_model False True False False) [0, 1, 2, 3] True True None
                  gpu_world
      in fst run
           = Inl (AssertionError ''use_all_avail_gpus not implemented for distributional RL'')
       \<and> wrapped (events_since gpu_world (snd run)) = []
       \<and> constructed (events_since gpu_world (snd run)) = [0]
       \<and> architecture_of (net (heap (snd run) ! 0)) = Some Categorical)"
proof -
  have flag: "quantile (rainbow (example_discrete_model False True False False))
       \<or> categorical (rainbow (example_discrete_model False True False False))"
    by (simp add: example_defs)
  show ?thesis
    using flag
      multi_gpu_distributional_raises_after_construction [OF TrueI flag,
        of one_output_per_feature "[0, 1, 2, 3]" True None gpu_world]
    by (simp add: Let_def example_defs first_match_architecture_def)
qed

text \<open>
  C1 as stated also says that no network is constructed. A quantile configuration with
  \<^verbatim>\<open>calc_cpe_in_training\<close> and \<^verbatim>\<open>use_all_avail_gpus\<close> shows otherwise: the call ends
  in the assertion error with three constructor calls made and five networks on the heap.
\<close>

theorem multi_gpu_quantile_constructs_networks_counterexample:
  "fst (create_dqn_trainer_from_params one_output_per_feature
          (example_discrete_model True False False True) [0, 1, 2, 3] False True None
          cpu_only_world)
     = Inl (AssertionError ''use_all_avail_gpus not implemented for distributional RL'')
   \<and> constructed (events_since cpu_only_world
         (snd (create_dqn_trainer_from_params one_output_per_feature
            (example_discrete_model True False False True) [0, 1, 2, 3] False True None
            cpu_only_world))) = [0, 2, 3]
   \<and> map net (heap (snd (create_dqn_trainer_from_params one_output_per_feature
            (example_discrete_model True False False True) [0, 1, 2, 3] False True None
            cpu_only_world)))
     = [QuantileDQN 4 2 51 [128, 64] [''relu'', ''relu''] 0,
        QuantileDQN 4 2 51 [128, 64] [''relu'', ''relu''] 0,
        FullyConnectedDQN 4 2 [128, 64] [''relu'', ''relu''] 0,
        FullyConnectedDQN 4 2 [128, 64] [''relu'', ''relu''] 0,
        FullyConnectedDQN 4 2 [128, 64] [''relu'', ''relu''] 0]"
  by (simp add: create_dqn_trainer_from_params_run Let_def example_defs events_since_def)

section \<open>Device placement in the parametric and world-model factories\<close>

text \<open>
  C2, as amended. In \<^verbatim>\<open>create_parametric_dqn_trainer_from_params\<close> with
  \<^verbatim>\<open>use_gpu\<close> set, on a machine with a CUDA device, the target network is derived from
  the primary network first, before any placement; \<^verbatim>\<open>.cuda()\<close> is then called on
  the primary, the target and the reward network, in this order, each on its own. After
  construction all three are on the GPU, so the target, a copy of the primary, is on the
  same device as the primary, and the trainer is bound to these three networks
  (directly or through their multi-device wrappers).
\<close>

theorem parametric_target_derived_then_all_placed:
  assumes "use_gpu" and "cuda_available w"
  shows "let run = create_parametric_dqn_trainer_from_params g model snp anp use_gpu use_all w;
             w' = snd run;
             n = length (heap w)
         in events_since w w'
              = [Constructed n, Constructed (n + 1), TargetDerived (n + 2) n,
                 CudaCalled n, CudaCalled (n + 2), CudaCalled (n + 1)]
                @ (if use_all
                   then [Wrapped (n + 3) n, Wrapped (n + 4) (n + 2), Wrapped (n + 5) (n + 1)]
                   else [])
          \<and> placed_on (heap w' ! n) = GPU
          \<and> placed_on (heap w' ! (n + 1)) = GPU
          \<and> placed_on (heap w' ! (n + 2)) = GPU
          \<and> net (heap w' ! (n + 2)) = net (heap w' ! n)
          \<and> (\<exists>t. fst run = Inr t
                \<and> unwrap w' (q_network_of t) = n
                \<and> unwrap w' (q_network_target_of t) = n + 2
                \<and> map_option (unwrap w') (reward_network_of t) = Some (n + 1))"
  using assms unfolding create_parametric_dqn_trainer_from_params_run
  by (simp add: Let_def nth_append unwrap_def)

theorem parametric_target_derived_then_all_placed_witness:
  "True \<and> cuda_available gpu_world
   \<and> (let run = create_parametric_dqn_trainer_from_params one_output_per_feature
                  example_continuous_model [0, 1, 2, 3] [4, 5] True False gpu_world
      in events_since gpu_world (snd run)
           = [Constructed 0, Constructed 1, TargetDerived 2 0,
              CudaCalled 0, CudaCalled 2, CudaCalled 1]
       \<and> map placed_on (heap (snd run)) = [GPU, GPU, GPU]
       \<and> (\<exists>t. fst run = Inr t \<and> q_network_of t = 0 \<and> q_network_target_of t = 2
              \<and> reward_network_of t = Some 1))"
proof -
  have avail: "cuda_available gpu_world"
    by (simp add: example_defs)
  show ?thesis
    using avail
      parametric_target_derived_then_all_placed [OF TrueI avail, of one_output_per_feature
        example_continuous_model "[0, 1, 2, 3]" "[4, 5]" False]
    by (simp add: Let_def example_defs create_parametric_dqn_trainer_from_params_run
        events_since_def unwrap_def)
qed

text \<open>
  C2 as stated puts the placement before the derivation of the target. In a run with
  \<^verbatim>\<open>use_gpu\<close> on a machine with a CUDA device the derivation of the target (object 2
  from object 0) precedes the \<^verbatim>\<open>.cuda()\<close> call on the primary network, and not the
  other way round.
\<close>

theorem parametric_target_derived_before_placement_counterexample:
  "events_since gpu_world
      (snd (create_parametric_dqn_trainer_from_params one_output_per_feature
         example_continuous_model [0, 1, 2, 3] [4, 5] True False gpu_world))
     = [Constructed 0, Constructed 1, TargetDerived 2 0, CudaCalled 0, CudaCalled 2, CudaCalled 1]
   \<and> happens_before (TargetDerived 2 0) (CudaCalled 0)
        (trace (snd (create_parametric_dqn_trainer_from_params one_output_per_feature
           example_continuous_model [0, 1, 2, 3] [4, 5] True False gpu_world)))
   \<and> \<not> happens_before (CudaCalled 0) (TargetDerived 2 0)
        (trace (snd (create_parametric_dqn_trainer_from_params one_output_per_feature
           example_continuous_model [0, 1, 2, 3] [4, 5] True False gpu_world)))"
  by (simp add: create_parametric_dqn_trainer_from_params_run Let_def example_defs
      events_since_def)

text \<open>
  The discrete-action factory asks \<^verbatim>\<open>torch.cuda.is_available()\<close> before every
  placement: without a CUDA device it makes no \<^verbatim>\<open>.cuda()\<close> call, whatever
  \<^verbatim>\<open>use_gpu\<close> says.
\<close>

lemma dqn_without_cuda_device_stays_on_cpu:
  assumes "\<not> cuda_available w"
  shows "cuda_calls (events_since w
           (snd (create_dqn_trainer_from_params g model np use_gpu use_all ms w))) = []"
  using assms unfolding create_dqn_trainer_from_params_run
  by (simp add: Let_def)

text \<open>
  C3 at the input \<^verbatim>\<open>use_gpu = True\<close> on a machine without a CUDA device. The
  parametric factory and the world-model factory test \<^verbatim>\<open>use_gpu\<close> alone: each calls
  \<^verbatim>\<open>.cuda()\<close> on its first network and ends in the error torch raises, and so does
  \<^verbatim>\<open>get_cem_trainer\<close>, which builds its ensemble with the world-model factory. The
  discrete-action factory, at the same input, returns a trainer and makes no
  \<^verbatim>\<open>.cuda()\<close> call.
\<close>

theorem gpu_requested_without_cuda_device:
  "fst (create_parametric_dqn_trainer_from_params one_output_per_feature
          example_continuous_model [0, 1, 2, 3] [4, 5] True False cpu_only_world)
     = Inl CudaUnavailable
   \<and> cuda_calls (trace (snd (create_parametric_dqn_trainer_from_params one_output_per_feature
          example_continuous_model [0, 1, 2, 3] [4, 5] True False cpu_only_world))) = [0]
   \<and> fst (create_world_model_trainer example_env example_mdnrnn True cpu_only_world)
     = Inl CudaUnavailable
   \<and> cuda_calls (trace (snd (create_world_model_trainer example_env example_mdnrnn True
          cpu_only_world))) = [0]
   \<and> fst (get_cem_trainer example_env (example_cem 3) True cpu_only_world)
     = Inl CudaUnavailable
   \<and> (\<exists>t. fst (create_dqn_trainer_from_params one_output_per_feature
               (example_discrete_model False False False False) [0, 1, 2, 3] True False None
               cpu_only_world) = Inr t)
   \<and> cuda_calls (trace (snd (create_dqn_trainer_from_params one_output_per_feature
          (example_discrete_model False False False False) [0, 1, 2, 3] True False None
          cpu_only_world))) = []"
  by (simp add: create_parametric_dqn_trainer_from_params_run
      create_world_model_trainer_run create_dqn_trainer_from_params_run
      get_cem_trainer_def py_bind_def eval_nat_numeral
      Let_def example_defs)

section \<open>The world-model ensemble of \<^verbatim>\<open>get_cem_trainer\<close>\<close>

lemma constructed_member_events:
  "constructed (concat (map (\<lambda>a. Constructed a # (if c then [CudaCalled a] else [])) as)) = as"
  by (induction as) simp_all

lemma map_trainer_mdnrnn:
  "map (trainer_mdnrnn \<circ> (\<lambda>a. MDNRNNTrainer a p)) as = as"
  by (induction as) simp_all

lemma get_cem_trainer_run:
  assumes "use_gpu \<longrightarrow> cuda_available w"
  shows "get_cem_trainer env params use_gpu w =
     (let n = length (heap w);
          k = nat (num_world_models params);
          nets = [n ..< n + k];
          p = mdnrnn params;
          discrete = (action_type env = DISCRETE_ACTION)
      in (Inr (CEMTrainer (n + k) (map (\<lambda>a. MDNRNNTrainer a p) nets) params use_gpu),
          w\<lparr> heap := heap w
                 @ replicate k
                     \<lparr> net = MemoryNetwork (state_dim env) (action_dim env) (hidden_size p)
                               (num_hidden_layers p) (num_gaussians p),
                       placed_on = (if use_gpu then GPU else CPU) \<rparr>
                 @ [\<lparr> net = CEMPlannerNetwork nets (cem_num_iterations params)
                              (cem_population_size params) (ensemble_population_size params)
                              (num_elites params) (plan_horizon_length params)
                              (state_dim env) (action_dim env) discrete
                              (not_terminal_loss_weight p > 0)
                              (gamma (CEMParameters.rl params)) (alpha params) (epsilon params)
                              (if discrete then None else Some (high (action_space env)))
                              (if discrete then None else Some (low (action_space env))),
                      placed_on = CPU \<rparr>],
             trace := trace w
                 @ concat (map (\<lambda>a. Constructed a # (if use_gpu then [CudaCalled a] else []))
                     nets)
                 @ [Constructed (n + k)] \<rparr>))"
  unfolding get_cem_trainer_def Let_def
  by (simp add: py_bind_def py_return_def new_module_def Let_def
      repeat_create_world_model_trainer_run [OF assms] map_trainer_mdnrnn)

text \<open>
  Where GPU placement does not raise (\<^verbatim>\<open>use_gpu\<close> is not set, or the machine has a
  CUDA device), \<^verbatim>\<open>get_cem_trainer\<close> with \<^verbatim>\<open>num_world_models = N\<close> returns a
  \<open>CEMTrainer\<close> with \<open>N\<close> world-model trainers (none for \<open>N \<le> 0\<close>, as \<^verbatim>\<open>range(N)\<close>
  is empty then). Their networks are pairwise distinct objects, each a
  \<open>MemoryNetwork\<close> allocated by this call. Exactly one further network is constructed,
  the \<open>CEMPlannerNetwork\<close> of the trainer, and its \<^verbatim>\<open>mem_net_list\<close> is the list of
  those \<open>N\<close> networks, in order.
\<close>

lemma cem_ensemble_networks_are_distinct_and_planned:
  assumes "use_gpu \<longrightarrow> cuda_available w"
  shows "\<exists>planner trainers.
           fst (get_cem_trainer env params use_gpu w)
             = Inr (CEMTrainer planner trainers params use_gpu)
         \<and> length trainers = nat (num_world_models params)
         \<and> distinct (map trainer_mdnrnn trainers)
         \<and> (\<forall>a \<in> set (map trainer_mdnrnn trainers).
               length (heap w) \<le> a
             \<and> a < length (heap (snd (get_cem_trainer env params use_gpu w)))
             \<and> is_memory_network (net (heap (snd (get_cem_trainer env params use_gpu w)) ! a)))
         \<and> mem_net_list_of (net (heap (snd (get_cem_trainer env params use_gpu w)) ! planner))
             = Some (map trainer_mdnrnn trainers)
         \<and> constructed (events_since w (snd (get_cem_trainer env params use_gpu w)))
             = map trainer_mdnrnn trainers @ [planner]"
proof -
  let ?n = "length (heap w)"
  let ?k = "nat (num_world_models params)"
  let ?trainers = "map (\<lambda>a. MDNRNNTrainer a (mdnrnn params)) [?n ..< ?n + ?k]"
  have nets: "map trainer_mdnrnn ?trainers = [?n ..< ?n + ?k]"
    by (simp add: map_trainer_mdnrnn)
  show ?thesis
    apply (rule exI [of _ "?n + ?k"])
    apply (rule exI [of _ ?trainers])
    unfolding nets
    by (auto simp add: get_cem_trainer_run [OF assms] Let_def nth_append
        constructed_member_events)
qed

lemma cem_ensemble_networks_are_distinct_and_planned_on_gpu:
  "cuda_available gpu_world
   \<and> (\<exists>planner trainers.
           fst (get_cem_trainer example_env (example_cem 3) True gpu_world)
             = Inr (CEMTrainer planner trainers (example_cem 3) True)
         \<and> length trainers = 3
         \<and> distinct (map trainer_mdnrnn trainers)
         \<and> mem_net_list_of
               (net (heap (snd (get_cem_trainer example_env (example_cem 3) True
                  gpu_world)) ! planner))
             = Some (map trainer_mdnrnn trainers)
         \<and> constructed (events_since gpu_world
               (snd (get_cem_trainer example_env (example_cem 3) True gpu_world)))
             = map trainer_mdnrnn trainers @ [planner])"
proof -
  have avail: "cuda_available gpu_world"
    by (simp add: gpu_world_def)
  then have ok: "True \<longrightarrow> cuda_available gpu_world"
    by simp
  have three: "nat (num_world_models (example_cem 3)) = 3"
    by (simp add: example_cem_def)
  show ?thesis
    using avail
      cem_ensemble_networks_are_distinct_and_planned [OF ok, of example_env "example_cem 3"]
    unfolding three by blast
qed

text \<open>The case \<open>N = 3\<close> in full: three trainers on the networks 0, 1 and 2, and the
  planner, object 3, refers to exactly these.\<close>

lemma cem_three_world_models_example:
  "fst (get_cem_trainer example_env (example_cem 3) False cpu_only_world)
     = Inr (CEMTrainer 3
         [MDNRNNTrainer 0 example_mdnrnn, MDNRNNTrainer 1 example_mdnrnn,
          MDNRNNTrainer 2 example_mdnrnn]
         (example_cem 3) False)
   \<and> mem_net_list_of
         (net (heap (snd (get_cem_trainer example_env (example_cem 3) False cpu_only_world)) ! 3))
     = Some [0, 1, 2]"
proof -
  have range: "[0 ..< 3] = [0, 1, 2::nat]"
    by (simp add: eval_nat_numeral)
  have ok: "False \<longrightarrow> cuda_available cpu_only_world"
    by simp
  have three: "nat (num_world_models (example_cem 3)) = 3"
    by (simp add: example_cem_def)
  have mdn: "mdnrnn (example_cem 3) = example_mdnrnn"
    by (simp add: example_cem_def)
  show ?thesis
    unfolding get_cem_trainer_run [OF ok] Let_def three mdn
    by (simp add: cpu_only_world_def range nth_append)
qed

text \<open>
  C7 at the input \<^verbatim>\<open>num_world_models = 3\<close>, \<^verbatim>\<open>use_gpu = True\<close> on a machine
  without a CUDA device. \<^verbatim>\<open>create_world_model_trainer\<close> tests \<^verbatim>\<open>use_gpu\<close> alone
  before it calls \<^verbatim>\<open>.cuda()\<close>, so the first pass of the comprehension ends in the
  error torch raises: one \<open>MemoryNetwork\<close> has been constructed, and there are no
  trainers, no second and third network and no \<open>CEMPlannerNetwork\<close>. With the
  availability check that the discrete-action factory makes, the call would build the
  three networks and the planner on the CPU, as it does with \<^verbatim>\<open>use_gpu = False\<close>.
\<close>

theorem cem_ensemble_without_cuda_device:
  "fst (get_cem_trainer example_env (example_cem 3) True cpu_only_world) = Inl CudaUnavailable
   \<and> map net (heap (snd (get_cem_trainer example_env (example_cem 3) True cpu_only_world)))
       = [MemoryNetwork 3 1 50 2 5]
   \<and> trace (snd (get_cem_trainer example_env (example_cem 3) True cpu_only_world))
       = [Constructed 0, CudaCalled 0]"
  by (simp add: get_cem_trainer_def py_bind_def eval_nat_numeral
      create_world_model_trainer_run Let_def example_defs)

section \<open>Properties of \<^verbatim>\<open>TrainingDataPage\<close>\<close>

text \<open>
  C9. Constructing a \<^verbatim>\<open>TrainingDataPage\<close> validates nothing and fails for no argument
  values: it returns a page whose every slot holds the argument of the same name,
  unchanged; when \<^verbatim>\<open>not_terminals\<close> is omitted its slot is \<^verbatim>\<open>None\<close>, when it is
  passed the slot holds what was passed. Per-example sequences of unequal lengths
  (five states, four rewards) are accepted like any others.
\<close>

theorem TrainingDataPage_init_stores_all:
  "(\<exists>page. TrainingDataPage_init s a r ns na pna rt d None = Inr page
      \<and> TrainingDataPage.states page = s \<and> TrainingDataPage.actions page = a
      \<and> TrainingDataPage.rewards page = r \<and> TrainingDataPage.next_states page = ns
      \<and> TrainingDataPage.next_actions page = na
      \<and> TrainingDataPage.possible_next_actions page = pna
      \<and> TrainingDataPage.reward_timelines page = rt \<and> TrainingDataPage.ds page = d
      \<and> TrainingDataPage.not_terminals page = None)
   \<and> (\<exists>page. TrainingDataPage_init s a r ns na pna rt d (Some nt) = Inr page
      \<and> TrainingDataPage.states page = s \<and> TrainingDataPage.actions page = a
      \<and> TrainingDataPage.rewards page = r \<and> TrainingDataPage.next_states page = ns
      \<and> TrainingDataPage.next_actions page = na
      \<and> TrainingDataPage.possible_next_actions page = pna
      \<and> TrainingDataPage.reward_timelines page = rt \<and> TrainingDataPage.ds page = d
      \<and> TrainingDataPage.not_terminals page = nt)
   \<and> (\<exists>page. TrainingDataPage_init [1, 2, 3, 4, 5 :: int] a' [1, 2, 3, 4] ns' na' pna' rt' d' None
          = Inr page
        \<and> length (TrainingDataPage.states page) = 5
        \<and> length (TrainingDataPage.rewards page) = 4)"
  by (simp add: TrainingDataPage_init_def)

end
